theory Spec2Isabelle
  imports Complex_Main
begin

section \<open>Data model\<close>

text \<open>
  The documents of the three collections the routes of \<^verbatim>\<open>src/routes/index.js\<close> work on.
  Object ids are opaque and modelled as natural numbers. Stock quantities and requested
  quantities are integers. Prices are exact rationals: the rounding of JavaScript's
  floating-point numbers is not modelled.
\<close>

text \<open>\<^verbatim>\<open>productoSchema\<close> of \<^verbatim>\<open>src/models/Producto.js\<close>.\<close>

record producto =
  p_id :: nat
  nombre :: string
  precio :: rat
  cantidad :: int
  categoriaID :: nat

text \<open>
  Modelled from the spec: the schema of \<^verbatim>\<open>models/Categoria.js\<close> is not among the sources.
  A category has an identity and a display name; the aggregation pipeline reads exactly
  these two fields (\<^verbatim>\<open>_id\<close> and \<^verbatim>\<open>nombre\<close>).
\<close>

record categoria =
  c_id :: nat
  c_nombre :: string

text \<open>One element of \<^verbatim>\<open>productosVendidos\<close>, as both sale routes build it.\<close>

record item_vendido =
  productoID :: nat
  v_nombre :: string
  precioUnitario :: rat
  v_cantidad :: int
  subtotal :: rat

text \<open>
  Modelled from the spec: the schema of \<^verbatim>\<open>models/venta.js\<close> is not among the sources.
  A sale record holds the ordered sold items and the total amount; these are the two
  fields both routes pass to \<^verbatim>\<open>new Venta\<close>. Identity and timestamp are assigned by the
  storage layer and are left out.
\<close>

record venta =
  productosVendidos :: "item_vendido list"
  totalVenta :: rat

text \<open>One line of \<^verbatim>\<open>req.body.cart\<close>: \<^verbatim>\<open>item.id\<close> and \<^verbatim>\<open>item.cantidad\<close>.\<close>

record cart_item =
  item_id :: nat
  item_cantidad :: int

text \<open>
  The database: the product collection, the category collection and the sale ledger, each
  in insertion order.
\<close>

record db =
  productos :: "producto list"
  categorias :: "categoria list"
  ventas :: "venta list"

text \<open>
  The response sent to the caller: the HTTP status and the body. A body constructor
  carries exactly the values the source interpolates into that message or object.
\<close>

datatype cuerpo =
    CarritoVacio
    \<comment> \<open>\<^verbatim>\<open>El carrito esta vacio.\<close>\<close>
  | ProductoConIdNoEncontrado nat
    \<comment> \<open>\<^verbatim>\<open>Producto con ID ${item.id} no encontrado.\<close>\<close>
  | StockInsuficientePara string int
    \<comment> \<open>\<^verbatim>\<open>Stock insuficiente para ${producto.nombre}. Solo hay ${producto.cantidad} unidades.\<close>\<close>
  | VentaFinalizada rat
    \<comment> \<open>\<^verbatim>\<open>success: true\<close>, \<^verbatim>\<open>Venta finalizada con exito por $${totalVenta.toFixed(2)}\<close>\<close>
  | ErrorTransaccion
    \<comment> \<open>\<^verbatim>\<open>Error al ejecutar la transaccion de venta.\<close>\<close>
  | ErrorInterno
    \<comment> \<open>\<^verbatim>\<open>Error interno del servidor.\<close>\<close>
  | CantidadInvalida
    \<comment> \<open>\<^verbatim>\<open>La cantidad debe ser un numero mayor a cero.\<close>\<close>
  | ProductoNoEncontrado
    \<comment> \<open>\<^verbatim>\<open>Producto no encontrado.\<close>\<close>
  | StockInsuficiente int
    \<comment> \<open>\<^verbatim>\<open>Stock insuficiente. Solo hay ${producto.cantidad} unidades.\<close>\<close>
  | VentaRegistrada int producto
    \<comment> \<open>\<^verbatim>\<open>success: true\<close>, \<^verbatim>\<open>Venta de ${cantidadVenta} unidades registrada.\<close>,
        \<^verbatim>\<open>productoActualizado: producto\<close>\<close>
  | ErrorVentaRapida
    \<comment> \<open>\<^verbatim>\<open>Error interno del servidor. \<close> followed by the storage error's message\<close>

record respuesta =
  status :: nat
  cuerpo :: cuerpo

text \<open>
  Every awaited storage call can throw. The environment of a request says which of its
  storage calls do: \<open>env pt\<close> holds when the call at point \<open>pt\<close> throws. Calls in a loop are
  numbered by the iteration.
\<close>

datatype punto =
    FindById nat
  | StartSession
  | FindByIdAndUpdate nat
  | VentaSave
  | CommitTransaction
  | AbortTransaction
  | ProductoSave
  | Aggregate

definition sin_fallos :: "punto \<Rightarrow> bool" where
  "sin_fallos = (\<lambda>pt. False)"

section \<open>Storage operations\<close>

text \<open>\<^verbatim>\<open>Producto.findById(id)\<close>: the document with that \<^verbatim>\<open>_id\<close>, or \<^verbatim>\<open>null\<close>.\<close>

fun findById :: "producto list \<Rightarrow> nat \<Rightarrow> producto option" where
  "findById [] i = None"
| "findById (p # ps) i = (if p_id p = i then Some p else findById ps i)"

text \<open>
  \<^verbatim>\<open>Producto.findByIdAndUpdate(id, { $inc: { cantidad: d } })\<close>: adds \<open>d\<close> to the stock of the
  document with that \<^verbatim>\<open>_id\<close>. No validator runs (\<^verbatim>\<open>runValidators\<close> is not set), and an id
  that matches no document changes nothing and does not throw.
\<close>

fun findByIdAndUpdate_inc :: "producto list \<Rightarrow> nat \<Rightarrow> int \<Rightarrow> producto list" where
  "findByIdAndUpdate_inc [] i d = []"
| "findByIdAndUpdate_inc (p # ps) i d =
     (if p_id p = i then p\<lparr>cantidad := cantidad p + d\<rparr> # ps
      else p # findByIdAndUpdate_inc ps i d)"

text \<open>
  \<^verbatim>\<open>producto.save()\<close> after \<^verbatim>\<open>producto.cantidad -= cantidadVenta\<close>: writes the document's
  modified field back to the stored document with the same \<^verbatim>\<open>_id\<close>.
\<close>

fun producto_save :: "producto list \<Rightarrow> producto \<Rightarrow> producto list" where
  "producto_save [] q = []"
| "producto_save (p # ps) q =
     (if p_id p = p_id q then p\<lparr>cantidad := cantidad q\<rparr> # ps
      else p # producto_save ps q)"

section \<open>Cart checkout: \<^verbatim>\<open>POST /ventas/finalizar\<close>\<close>

text \<open>The object pushed onto \<^verbatim>\<open>productosVendidos\<close> for a validated line.\<close>

definition vendido :: "producto \<Rightarrow> cart_item \<Rightarrow> item_vendido" where
  "vendido p item =
     \<lparr>productoID = p_id p, v_nombre = nombre p, precioUnitario = precio p,
      v_cantidad = item_cantidad item,
      subtotal = of_int (item_cantidad item) * precio p\<rparr>"

text \<open>
  The validation loop. It carries the iteration number, \<^verbatim>\<open>productosVendidos\<close> and
  \<^verbatim>\<open>totalVenta\<close>, and returns at the first line that fails. A throwing read is caught by
  the outer \<^verbatim>\<open>catch\<close>.
\<close>

fun validar ::
  "(punto \<Rightarrow> bool) \<Rightarrow> producto list \<Rightarrow> cart_item list \<Rightarrow> nat \<Rightarrow> item_vendido list \<Rightarrow> rat
     \<Rightarrow> respuesta + (item_vendido list \<times> rat)" where
  "validar env ps [] k vs tot = Inr (vs, tot)"
| "validar env ps (item # rest) k vs tot =
     (if env (FindById k) then Inl \<lparr>status = 500, cuerpo = ErrorInterno\<rparr>
      else case findById ps (item_id item) of
        None \<Rightarrow> Inl \<lparr>status = 404, cuerpo = ProductoConIdNoEncontrado (item_id item)\<rparr>
      | Some p \<Rightarrow>
          if cantidad p < item_cantidad item
          then Inl \<lparr>status = 400, cuerpo = StockInsuficientePara (nombre p) (cantidad p)\<rparr>
          else validar env ps rest (Suc k) (vs @ [vendido p item])
                 (tot + of_int (item_cantidad item) * precio p))"

text \<open>
  The decrement loop inside the transaction: one unconditional \<^verbatim>\<open>$inc\<close> per cart line.
  \<open>None\<close> when a write throws.
\<close>

fun decrementar ::
  "(punto \<Rightarrow> bool) \<Rightarrow> producto list \<Rightarrow> cart_item list \<Rightarrow> nat \<Rightarrow> producto list option" where
  "decrementar env ps [] k = Some ps"
| "decrementar env ps (item # rest) k =
     (if env (FindByIdAndUpdate k) then None
      else decrementar env (findByIdAndUpdate_inc ps (item_id item) (- item_cantidad item))
             rest (Suc k))"

text \<open>
  The body of the inner \<^verbatim>\<open>try\<close>: the decrements, the save of the new sale and the commit,
  all in one session. The writes of a session become visible only when the commit
  succeeds; \<open>None\<close> when any of the calls throws, and then nothing was written.
\<close>

definition transaccion ::
  "(punto \<Rightarrow> bool) \<Rightarrow> db \<Rightarrow> cart_item list \<Rightarrow> item_vendido list \<Rightarrow> rat \<Rightarrow> db option" where
  "transaccion env st cart vs tot =
     (case decrementar env (productos st) cart 0 of
        None \<Rightarrow> None
      | Some ps' \<Rightarrow>
          if env VentaSave then None
          else if env CommitTransaction then None
          else Some (st\<lparr>productos := ps',
                        ventas := ventas st @ [\<lparr>productosVendidos = vs, totalVenta = tot\<rparr>]\<rparr>))"

text \<open>
  The route handler. An absent cart and an empty cart take the same branch. The result is
  the database after the request and the response.
\<close>

definition finalizar :: "(punto \<Rightarrow> bool) \<Rightarrow> db \<Rightarrow> cart_item list \<Rightarrow> db \<times> respuesta" where
  "finalizar env st cart =
     (if cart = [] then (st, \<lparr>status = 400, cuerpo = CarritoVacio\<rparr>)
      else (case validar env (productos st) cart 0 [] 0 of
              Inl r \<Rightarrow> (st, r)
            | Inr (vs, tot) \<Rightarrow>
                if env StartSession then (st, \<lparr>status = 500, cuerpo = ErrorInterno\<rparr>)
                else (case transaccion env st cart vs tot of
                        Some st' \<Rightarrow> (st', \<lparr>status = 200, cuerpo = VentaFinalizada tot\<rparr>)
                      | None \<Rightarrow>
                          if env AbortTransaction
                          then (st, \<lparr>status = 500, cuerpo = ErrorInterno\<rparr>)
                          else (st, \<lparr>status = 500, cuerpo = ErrorTransaccion\<rparr>))))"

section \<open>Quick sale: \<^verbatim>\<open>POST /productos/vender/:id\<close>\<close>

text \<open>
  The quantity argument is the result of \<^verbatim>\<open>parseInt(req.body.cantidad, 10)\<close>: \<open>None\<close> is
  \<^verbatim>\<open>NaN\<close>. The sale is saved first and the product second, with no session.
\<close>

definition vender :: "(punto \<Rightarrow> bool) \<Rightarrow> db \<Rightarrow> nat \<Rightarrow> int option \<Rightarrow> db \<times> respuesta" where
  "vender env st productoId cantidadVenta =
     (case cantidadVenta of
        None \<Rightarrow> (st, \<lparr>status = 400, cuerpo = CantidadInvalida\<rparr>)
      | Some n \<Rightarrow>
          if n \<le> 0 then (st, \<lparr>status = 400, cuerpo = CantidadInvalida\<rparr>)
          else if env (FindById 0) then (st, \<lparr>status = 500, cuerpo = ErrorVentaRapida\<rparr>)
          else (case findById (productos st) productoId of
                  None \<Rightarrow> (st, \<lparr>status = 404, cuerpo = ProductoNoEncontrado\<rparr>)
                | Some p \<Rightarrow>
                    if cantidad p < n
                    then (st, \<lparr>status = 400, cuerpo = StockInsuficiente (cantidad p)\<rparr>)
                    else
                      (let tot = precio p * of_int n;
                           nuevaVenta =
                             \<lparr>productosVendidos =
                                [\<lparr>productoID = p_id p, v_nombre = nombre p,
                                  precioUnitario = precio p, v_cantidad = n, subtotal = tot\<rparr>],
                              totalVenta = tot\<rparr>
                       in if env VentaSave
                          then (st, \<lparr>status = 500, cuerpo = ErrorVentaRapida\<rparr>)
                          else
                            (let st1 = st\<lparr>ventas := ventas st @ [nuevaVenta]\<rparr>;
                                 p' = p\<lparr>cantidad := cantidad p - n\<rparr>
                             in if env ProductoSave
                                then (st1, \<lparr>status = 500, cuerpo = ErrorVentaRapida\<rparr>)
                                else (st1\<lparr>productos := producto_save (productos st1) p'\<rparr>,
                                      \<lparr>status = 200, cuerpo = VentaRegistrada n p'\<rparr>)))))"

section \<open>Predicates and quantities the statements use\<close>

text \<open>No stored product has a negative stock.\<close>

definition stock_no_negativo :: "db \<Rightarrow> bool" where
  "stock_no_negativo st = list_all (\<lambda>p. 0 \<le> cantidad p) (productos st)"

text \<open>The quantity a cart requests of a product, over all its lines.\<close>

definition pedido :: "cart_item list \<Rightarrow> nat \<Rightarrow> int" where
  "pedido cart i = sum_list (map item_cantidad (filter (\<lambda>item. item_id item = i) cart))"

text \<open>A cart line passes validation: its product is stored and has enough stock.\<close>

definition linea_valida :: "producto list \<Rightarrow> cart_item \<Rightarrow> bool" where
  "linea_valida ps item =
     (case findById ps (item_id item) of
        None \<Rightarrow> False
      | Some p \<Rightarrow> item_cantidad item \<le> cantidad p)"

text \<open>The response of the validation loop for a line that does not pass.\<close>

definition error_de_linea :: "producto list \<Rightarrow> cart_item \<Rightarrow> respuesta" where
  "error_de_linea ps item =
     (case findById ps (item_id item) of
        None \<Rightarrow> \<lparr>status = 404, cuerpo = ProductoConIdNoEncontrado (item_id item)\<rparr>
      | Some p \<Rightarrow> \<lparr>status = 400, cuerpo = StockInsuficientePara (nombre p) (cantidad p)\<rparr>)"

section \<open>Stock by category: \<^verbatim>\<open>calcularExistenciasPorCategoria\<close> and \<^verbatim>\<open>existenciasMap\<close>\<close>

text \<open>A document produced by the pipeline's \<^verbatim>\<open>$project\<close> stage.\<close>

record fila =
  r_id :: nat
  r_nombre :: string
  totalExistencias :: int

text \<open>
  \<^verbatim>\<open>$group\<close>: one document per distinct \<^verbatim>\<open>categoriaID\<close> among the products, with the sum
  of their \<^verbatim>\<open>cantidad\<close>. The order of the groups is not fixed by the database.
\<close>

definition group_categoriaID :: "producto list \<Rightarrow> (nat \<times> int) list" where
  "group_categoriaID ps =
     map (\<lambda>c. (c, sum_list (map cantidad (filter (\<lambda>p. categoriaID p = c) ps))))
       (remdups (map categoriaID ps))"

text \<open>\<^verbatim>\<open>$lookup\<close>: attaches to each group the array of categories whose \<^verbatim>\<open>_id\<close> is the group's.\<close>

definition lookup_categorias ::
  "categoria list \<Rightarrow> (nat \<times> int) list \<Rightarrow> (nat \<times> int \<times> categoria list) list" where
  "lookup_categorias cs gs = map (\<lambda>(c, t). (c, t, filter (\<lambda>k. c_id k = c) cs)) gs"

text \<open>
  \<^verbatim>\<open>$unwind\<close>: one document per element of the attached array; a document whose array is
  empty produces none.
\<close>

definition unwind_categoriaInfo ::
  "(nat \<times> int \<times> categoria list) list \<Rightarrow> (nat \<times> int \<times> categoria) list" where
  "unwind_categoriaInfo ds = concat (map (\<lambda>(c, t, infos). map (\<lambda>k. (c, t, k)) infos) ds)"

definition project_fila :: "nat \<times> int \<times> categoria \<Rightarrow> fila" where
  "project_fila = (\<lambda>(c, t, k). \<lparr>r_id = c, r_nombre = c_nombre k, totalExistencias = t\<rparr>)"

text \<open>The whole pipeline; a throwing \<^verbatim>\<open>aggregate\<close> is caught and gives the empty array.\<close>

definition calcularExistenciasPorCategoria :: "(punto \<Rightarrow> bool) \<Rightarrow> db \<Rightarrow> fila list" where
  "calcularExistenciasPorCategoria env st =
     (if env Aggregate then []
      else map project_fila
             (unwind_categoriaInfo
                (lookup_categorias (categorias st) (group_categoriaID (productos st)))))"

text \<open>The \<^verbatim>\<open>reduce\<close> of the home route: an object keyed by category name.\<close>

definition existenciasMap :: "fila list \<Rightarrow> (string \<rightharpoonup> int)" where
  "existenciasMap filas =
     foldl (\<lambda>acc curr. acc(r_nombre curr \<mapsto> totalExistencias curr)) Map.empty filas"

text \<open>The sum of the stock quantities of the products that reference category \<open>c\<close>.\<close>

definition existencias_de :: "producto list \<Rightarrow> nat \<Rightarrow> int" where
  "existencias_de ps c = sum_list (map cantidad (filter (\<lambda>p. categoriaID p = c) ps))"

text \<open>The stock of the products whose category reference resolves to no category.\<close>

definition existencias_huerfanas :: "db \<Rightarrow> int" where
  "existencias_huerfanas st =
     sum_list (map cantidad
       (filter (\<lambda>p. categoriaID p \<notin> c_id ` set (categorias st)) (productos st)))"

section \<open>Example data\<close>

definition lapiz :: producto where
  "lapiz = \<lparr>p_id = 1, nombre = ''Lapiz'', precio = 3, cantidad = 5, categoriaID = 10\<rparr>"

definition goma :: producto where
  "goma = \<lparr>p_id = 2, nombre = ''Goma'', precio = 2, cantidad = 4, categoriaID = 10\<rparr>"

definition papeleria :: categoria where
  "papeleria = \<lparr>c_id = 10, c_nombre = ''Papeleria''\<rparr>"

definition tienda :: db where
  "tienda = \<lparr>productos = [lapiz, goma], categorias = [papeleria], ventas = []\<rparr>"

text \<open>A third product whose category reference resolves to no stored category.\<close>

definition tinta :: producto where
  "tinta = \<lparr>p_id = 3, nombre = ''Tinta'', precio = 9, cantidad = 7, categoriaID = 99\<rparr>"

definition tienda_huerfana :: db where
  "tienda_huerfana = \<lparr>productos = [lapiz, goma, tinta], categorias = [papeleria], ventas = []\<rparr>"

text \<open>
  The products of the aggregation example: A with stock 5 and B with stock 3 in category X,
  C with stock 2 in category Y, and a category Z without products.
\<close>

definition almacen :: db where
  "almacen =
     \<lparr>productos =
        [\<lparr>p_id = 1, nombre = ''A'', precio = 1, cantidad = 5, categoriaID = 1\<rparr>,
         \<lparr>p_id = 2, nombre = ''B'', precio = 1, cantidad = 3, categoriaID = 1\<rparr>,
         \<lparr>p_id = 3, nombre = ''C'', precio = 1, cantidad = 2, categoriaID = 2\<rparr>],
      categorias =
        [\<lparr>c_id = 1, c_nombre = ''X''\<rparr>, \<lparr>c_id = 2, c_nombre = ''Y''\<rparr>,
         \<lparr>c_id = 3, c_nombre = ''Z''\<rparr>],
      ventas = []\<rparr>"

text \<open>A cart with one line per product, within the stock of \<open>tienda\<close>.\<close>

definition carrito_valido :: "cart_item list" where
  "carrito_valido = [\<lparr>item_id = 1, item_cantidad = 2\<rparr>, \<lparr>item_id = 2, item_cantidad = 1\<rparr>]"

text \<open>A cart whose second line asks for more than the stock and whose third names no product.\<close>

definition carrito_excedido :: "cart_item list" where
  "carrito_excedido =
     [\<lparr>item_id = 1, item_cantidad = 2\<rparr>, \<lparr>item_id = 2, item_cantidad = 9\<rparr>,
      \<lparr>item_id = 8, item_cantidad = 1\<rparr>]"

text \<open>Environments in which one storage call throws, or two.\<close>

definition falla_venta_save :: "punto \<Rightarrow> bool" where
  "falla_venta_save = (\<lambda>pt. pt = VentaSave)"

definition falla_producto_save :: "punto \<Rightarrow> bool" where
  "falla_producto_save = (\<lambda>pt. pt = ProductoSave)"

definition falla_venta_save_y_abort :: "punto \<Rightarrow> bool" where
  "falla_venta_save_y_abort = (\<lambda>pt. pt = VentaSave \<or> pt = AbortTransaction)"

definition falla_lectura :: "punto \<Rightarrow> bool" where
  "falla_lectura = (\<lambda>pt. pt = FindById 0)"

text \<open>A cart of one line that asks for the whole stock of the first product.\<close>

definition carrito_cinco :: "cart_item list" where
  "carrito_cinco = [\<lparr>item_id = 1, item_cantidad = 5\<rparr>]"

text \<open>Two cart lines for the same product, three units each.\<close>

definition carrito_doble :: "cart_item list" where
  "carrito_doble = [\<lparr>item_id = 1, item_cantidad = 3\<rparr>, \<lparr>item_id = 1, item_cantidad = 3\<rparr>]"

section \<open>Facts about the storage operations\<close>

lemma findById_inc:
  "findById (findByIdAndUpdate_inc ps i d) j =
     (if i = j then map_option (\<lambda>p. p\<lparr>cantidad := cantidad p + d\<rparr>) (findById ps j)
      else findById ps j)"
  by (induction ps) auto

lemma findById_Some_id: "findById ps i = Some p \<Longrightarrow> p_id p = i"
  by (induction ps) (auto split: if_splits)

lemma producto_save_inc:
  "findById ps i = Some p \<Longrightarrow>
   producto_save ps (p\<lparr>cantidad := cantidad p - n\<rparr>) = findByIdAndUpdate_inc ps i (- n)"
  by (induction ps) (auto split: if_splits dest: findById_Some_id)

section \<open>Facts about validation and decrement\<close>

lemma validar_ok:
  "\<forall>k. \<not> env (FindById k) \<Longrightarrow> list_all (linea_valida ps) cart \<Longrightarrow>
   validar env ps cart k vs tot =
     Inr (vs @ map (\<lambda>item. vendido (the (findById ps (item_id item))) item) cart,
          tot + sum_list (map (\<lambda>item. of_int (item_cantidad item) * precio (the (findById ps (item_id item)))) cart))"
  by (induction cart arbitrary: k vs tot) (auto simp: linea_valida_def split: option.splits)

lemma validar_Inr_valida:
  "validar env ps cart k vs tot = Inr r \<Longrightarrow> list_all (linea_valida ps) cart"
  by (induction cart arbitrary: k vs tot)
     (auto simp: linea_valida_def split: if_splits option.splits)

lemma validar_primera_invalida:
  "\<forall>k. \<not> env (FindById k) \<Longrightarrow> list_all (linea_valida ps) pre \<Longrightarrow> \<not> linea_valida ps item \<Longrightarrow>
   validar env ps (pre @ item # post) k vs tot = Inl (error_de_linea ps item)"
  by (induction pre arbitrary: k vs tot)
     (auto simp: linea_valida_def error_de_linea_def split: option.splits)

lemma validar_invalida_Inl:
  "\<not> list_all (linea_valida ps) cart \<Longrightarrow> \<exists>r. validar env ps cart k vs tot = Inl r"
  by (induction cart arbitrary: k vs tot)
     (auto simp: linea_valida_def split: option.splits)

lemma pedido_Cons:
  "pedido (item # rest) i = (if item_id item = i then item_cantidad item else 0) + pedido rest i"
  by (simp add: pedido_def)

lemma decrementar_ok:
  "\<forall>k. \<not> env (FindByIdAndUpdate k) \<Longrightarrow> \<exists>ps'. decrementar env ps cart k = Some ps' \<and>
     (\<forall>i. findById ps' i = map_option (\<lambda>p. p\<lparr>cantidad := cantidad p - pedido cart i\<rparr>) (findById ps i))"
proof (induction cart arbitrary: ps k)
  case Nil
  then show ?case by (simp add: pedido_def option.map_ident)
next
  case (Cons item rest)
  let ?ps1 = "findByIdAndUpdate_inc ps (item_id item) (- item_cantidad item)"
  from Cons.IH [OF Cons.prems, of ?ps1 "Suc k"] obtain ps' where
    d: "decrementar env ?ps1 rest (Suc k) = Some ps'" and
    f: "\<forall>i. findById ps' i = map_option (\<lambda>p. p\<lparr>cantidad := cantidad p - pedido rest i\<rparr>) (findById ?ps1 i)"
    by blast
  have "decrementar env ps (item # rest) k = Some ps'"
    using Cons.prems d by simp
  moreover have "findById ps' i =
      map_option (\<lambda>p. p\<lparr>cantidad := cantidad p - pedido (item # rest) i\<rparr>) (findById ps i)" for i
    using f by (cases "findById ps i") (auto simp: findById_inc pedido_Cons)
  ultimately show ?case by blast
qed

lemma decrementar_falla:
  "decrementar env ps cart k = None \<longleftrightarrow> (\<exists>j < length cart. env (FindByIdAndUpdate (k + j)))"
proof (induction cart arbitrary: ps k)
  case Nil
  then show ?case by simp
next
  case (Cons item rest)
  show ?case
  proof (cases "env (FindByIdAndUpdate k)")
    case True
    then have "\<exists>j < length (item # rest). env (FindByIdAndUpdate (k + j))"
      by (intro exI [of _ 0]) simp
    with True show ?thesis by simp
  next
    case False
    have "(\<exists>j < length (item # rest). env (FindByIdAndUpdate (k + j))) \<longleftrightarrow>
          (\<exists>j < length rest. env (FindByIdAndUpdate (Suc k + j)))"
      using False by (auto simp: less_Suc_eq_0_disj)
    with False Cons.IH show ?thesis by simp
  qed
qed

section \<open>Duplicate cart lines\<close>

text \<open>
  C1. The claim: a cart with two lines for the same product succeeds exactly when the sum
  of the two quantities is at most the product's stock. The validation loop compares each
  line with the stored stock on its own: with a stock of 5 and two lines of 3 units each,
  3 + 3 exceeds 5 and yet the checkout answers 200 and records a sale of both lines.
\<close>

theorem finalizar_carrito_doble_succeeds:
  "\<not> (3 + 3 \<le> cantidad lapiz) \<and>
   findById (productos tienda) 1 = Some lapiz \<and>
   snd (finalizar sin_fallos tienda carrito_doble) =
     \<lparr>status = 200, cuerpo = VentaFinalizada 18\<rparr> \<and>
   map v_cantidad (productosVendidos (last (ventas (fst (finalizar sin_fallos tienda carrito_doble)))))
     = [3, 3]"
  by (simp add: finalizar_def transaccion_def vendido_def sin_fallos_def tienda_def
      carrito_doble_def lapiz_def goma_def)

section \<open>Atomicity of the two writes of a sale\<close>

text \<open>
  The checkout is all or nothing, whatever storage calls throw: either the database is
  left as it was, or all decrements were applied and one sale record was appended.
\<close>

lemma finalizar_todo_o_nada:
  "fst (finalizar env st cart) = st \<or>
   (\<exists>ps' v. decrementar env (productos st) cart 0 = Some ps' \<and>
      fst (finalizar env st cart) = st\<lparr>productos := ps', ventas := ventas st @ [v]\<rparr>)"
  by (auto simp: finalizar_def transaccion_def split: sum.splits option.splits)

text \<open>
  C2. The claim: for a sale committed by checkout or by quick sale, the stock decrement and
  the append of the sale record are one atomic unit. The checkout wraps both writes in a
  session; the quick sale saves the sale and then the product, without one. When the
  product's save throws after the sale was saved, the ledger holds a sale of 2 units while
  the stock still is 5, and the caller is told the sale failed.
\<close>

theorem vender_sale_without_decrement:
  "map (map v_cantidad \<circ> productosVendidos) (ventas (fst (vender falla_producto_save tienda 1 (Some 2))))
     = [[2]] \<and>
   productos (fst (vender falla_producto_save tienda 1 (Some 2))) = productos tienda \<and>
   findById (productos tienda) 1 = Some lapiz \<and> cantidad lapiz = 5 \<and>
   snd (vender falla_producto_save tienda 1 (Some 2)) = \<lparr>status = 500, cuerpo = ErrorVentaRapida\<rparr>"
  by (simp add: vender_def falla_producto_save_def tienda_def lapiz_def goma_def Let_def)

section \<open>Stock never negative\<close>

text \<open>
  The handlers suspend at every awaited storage call, so the commit phase of one checkout
  can run after another sale has landed. The commit phase does not look at the stock
  again: a checkout of 5 units that validated against a stock of 5, and whose decrement
  runs after another checkout of 5 units committed, leaves the stock at -5.
\<close>

lemma transaccion_after_concurrent_sale:
  "validar sin_fallos (productos tienda) carrito_cinco 0 [] 0 =
     Inr ([vendido lapiz \<lparr>item_id = 1, item_cantidad = 5\<rparr>], 15) \<and>
   map_option (map cantidad \<circ> productos)
     (transaccion sin_fallos (fst (finalizar sin_fallos tienda carrito_cinco)) carrito_cinco
        [vendido lapiz \<lparr>item_id = 1, item_cantidad = 5\<rparr>] 15) = Some [- 5, 4]"
  by (simp add: finalizar_def transaccion_def vendido_def sin_fallos_def tienda_def
      carrito_cinco_def lapiz_def goma_def)

text \<open>
  C3. The claim: the stock of a product never goes negative, because each decrement at
  commit time checks that the stock covers the quantity. The decrement at commit time is
  an unconditional \<^verbatim>\<open>$inc\<close> that runs no validator: a single checkout whose cart has two
  lines of 3 units for a product with 5 in stock takes a non-negative stock to -1.
\<close>

theorem carrito_doble_negative_stock:
  "stock_no_negativo tienda \<and>
   map cantidad (productos tienda) = [5, 4] \<and>
   map cantidad (productos (fst (finalizar sin_fallos tienda carrito_doble))) = [- 1, 4] \<and>
   \<not> stock_no_negativo (fst (finalizar sin_fallos tienda carrito_doble))"
  by (simp add: stock_no_negativo_def finalizar_def transaccion_def
      vendido_def sin_fallos_def tienda_def carrito_doble_def lapiz_def goma_def)

section \<open>Commit failure\<close>

text \<open>
  C4, as stated, fails: the error of a failed commit phase is not always one of its own.
  The abort of the session runs inside the inner \<^verbatim>\<open>catch\<close>; when it throws as well, the
  outer \<^verbatim>\<open>catch\<close> answers with the generic internal error, the very response a failed
  read in the validation pass gets.
\<close>

theorem finalizar_commit_failure_generic_error:
  "list_all (linea_valida (productos tienda)) carrito_valido \<and>
   falla_venta_save_y_abort VentaSave \<and>
   finalizar falla_venta_save_y_abort tienda carrito_valido =
     (tienda, \<lparr>status = 500, cuerpo = ErrorInterno\<rparr>) \<and>
   finalizar falla_lectura tienda carrito_valido =
     (tienda, \<lparr>status = 500, cuerpo = ErrorInterno\<rparr>)"
  by (simp add: finalizar_def transaccion_def vendido_def linea_valida_def
      falla_venta_save_y_abort_def falla_lectura_def tienda_def carrito_valido_def
      lapiz_def goma_def)

text \<open>
  C4, amended. When the cart passed validation and a write of the transaction (a
  decrement, the save of the sale or the commit) throws, the checkout leaves stock and
  ledger as they were and answers 500. The body is the transaction error, which no
  validation failure produces, when the abort of the session succeeds, and the generic
  internal error when the abort throws too.
\<close>

theorem finalizar_commit_failure:
  assumes "cart \<noteq> []"
    and "list_all (linea_valida (productos st)) cart"
    and "\<forall>k. \<not> env (FindById k)" and "\<not> env StartSession"
    and "(\<exists>j < length cart. env (FindByIdAndUpdate j)) \<or> env VentaSave \<or> env CommitTransaction"
  shows "finalizar env st cart =
       (st, \<lparr>status = 500,
             cuerpo = (if env AbortTransaction then ErrorInterno else ErrorTransaccion)\<rparr>) \<and>
     (\<forall>env' ps c k vs t r. validar env' ps c k vs t = Inl r \<longrightarrow> cuerpo r \<noteq> ErrorTransaccion)"
proof -
  obtain vs tot where v: "validar env (productos st) cart 0 [] 0 = Inr (vs, tot)"
    using validar_ok [OF assms(3,2)] by blast
  have "transaccion env st cart vs tot = None"
    using assms(5) decrementar_falla [of env "productos st" cart 0]
    by (auto simp: transaccion_def split: option.splits)
  then have "finalizar env st cart =
      (st, \<lparr>status = 500, cuerpo = (if env AbortTransaction then ErrorInterno else ErrorTransaccion)\<rparr>)"
    using assms(1,4) v by (simp add: finalizar_def)
  moreover have "cuerpo r \<noteq> ErrorTransaccion" if "validar env' ps c k vs t = Inl r"
    for env' ps c k vs t r
    using that
    by (induction c arbitrary: k vs t) (auto split: if_splits option.splits)
  ultimately show ?thesis by blast
qed

theorem finalizar_commit_failure_witness:
  "carrito_valido \<noteq> [] \<and>
   list_all (linea_valida (productos tienda)) carrito_valido \<and>
   (\<forall>k. \<not> falla_venta_save (FindById k)) \<and> \<not> falla_venta_save StartSession \<and>
   falla_venta_save VentaSave \<and> \<not> falla_venta_save AbortTransaction \<and>
   finalizar falla_venta_save tienda carrito_valido =
     (tienda, \<lparr>status = 500, cuerpo = ErrorTransaccion\<rparr>)"
proof -
  have h1: "carrito_valido \<noteq> []"
    by (simp add: carrito_valido_def)
  have h2: "list_all (linea_valida (productos tienda)) carrito_valido"
    by (simp add: carrito_valido_def linea_valida_def tienda_def lapiz_def goma_def)
  have h3: "\<forall>k. \<not> falla_venta_save (FindById k)"
    by (simp add: falla_venta_save_def)
  have h4: "\<not> falla_venta_save StartSession"
    by (simp add: falla_venta_save_def)
  have h5: "(\<exists>j < length carrito_valido. falla_venta_save (FindByIdAndUpdate j)) \<or>
      falla_venta_save VentaSave \<or> falla_venta_save CommitTransaction"
    by (simp add: falla_venta_save_def)
  have h6: "falla_venta_save VentaSave" "\<not> falla_venta_save AbortTransaction"
    by (simp_all add: falla_venta_save_def)
  from finalizar_commit_failure [OF h1 h2 h3 h4 h5] h6
  have "finalizar falla_venta_save tienda carrito_valido =
     (tienda, \<lparr>status = 500, cuerpo = ErrorTransaccion\<rparr>)"
    by simp
  then show ?thesis using h1 h2 h3 h4 h6 by simp
qed

section \<open>Validation failure\<close>

text \<open>
  C5, as stated, fails in one detail: the response to a line that asks for more than the
  stock carries the product's name and the available quantity, not the requested one.
  Two carts that ask for 7 and for 9 units of a product with 4 in stock get the same
  response.
\<close>

theorem stock_insuficiente_omits_requested:
  "snd (finalizar sin_fallos tienda [\<lparr>item_id = 2, item_cantidad = 7\<rparr>]) =
     \<lparr>status = 400, cuerpo = StockInsuficientePara ''Goma'' 4\<rparr> \<and>
   snd (finalizar sin_fallos tienda [\<lparr>item_id = 2, item_cantidad = 9\<rparr>]) =
     \<lparr>status = 400, cuerpo = StockInsuficientePara ''Goma'' 4\<rparr>"
  by (simp add: finalizar_def sin_fallos_def tienda_def lapiz_def goma_def)

text \<open>
  C5, amended. For every cart with a line whose product is missing or whose quantity
  exceeds the stored stock, the checkout changes neither stock nor ledger, and, when no
  read throws, it answers with the error of the first such line: 404 with the id for a
  missing product, 400 with the product's name and the available quantity otherwise.
\<close>

theorem finalizar_first_error:
  assumes "cart = pre @ item # post"
    and "list_all (linea_valida (productos st)) pre"
    and "\<not> linea_valida (productos st) item"
  shows "fst (finalizar env st cart) = st \<and>
     ((\<forall>k. \<not> env (FindById k)) \<longrightarrow>
        snd (finalizar env st cart) =
          (case findById (productos st) (item_id item) of
             None \<Rightarrow> \<lparr>status = 404, cuerpo = ProductoConIdNoEncontrado (item_id item)\<rparr>
           | Some p \<Rightarrow> \<lparr>status = 400, cuerpo = StockInsuficientePara (nombre p) (cantidad p)\<rparr>))"
proof -
  have "\<not> list_all (linea_valida (productos st)) cart"
    using assms(1,3) by simp
  then obtain r where "validar env (productos st) cart 0 [] 0 = Inl r"
    using validar_invalida_Inl by blast
  then have 1: "fst (finalizar env st cart) = st"
    by (simp add: finalizar_def)
  have 2: "snd (finalizar env st cart) = error_de_linea (productos st) item"
    if "\<forall>k. \<not> env (FindById k)"
    using validar_primera_invalida [OF that assms(2,3), of post 0 "[]" 0] assms(1)
    by (simp add: finalizar_def)
  show ?thesis using 1 2 by (simp add: error_de_linea_def)
qed

theorem finalizar_first_error_witness:
  "carrito_excedido =
     [\<lparr>item_id = 1, item_cantidad = 2\<rparr>] @ \<lparr>item_id = 2, item_cantidad = 9\<rparr> #
     [\<lparr>item_id = 8, item_cantidad = 1\<rparr>] \<and>
   list_all (linea_valida (productos tienda)) [\<lparr>item_id = 1, item_cantidad = 2\<rparr>] \<and>
   \<not> linea_valida (productos tienda) \<lparr>item_id = 2, item_cantidad = 9\<rparr> \<and>
   fst (finalizar sin_fallos tienda carrito_excedido) = tienda \<and>
   snd (finalizar sin_fallos tienda carrito_excedido) =
     \<lparr>status = 400, cuerpo = StockInsuficientePara ''Goma'' 4\<rparr>"
proof -
  have h1: "carrito_excedido =
     [\<lparr>item_id = 1, item_cantidad = 2\<rparr>] @ \<lparr>item_id = 2, item_cantidad = 9\<rparr> #
     [\<lparr>item_id = 8, item_cantidad = 1\<rparr>]"
    by (simp add: carrito_excedido_def)
  have h2: "list_all (linea_valida (productos tienda)) [\<lparr>item_id = 1, item_cantidad = 2\<rparr>]"
    by (simp add: linea_valida_def tienda_def lapiz_def goma_def)
  have h3: "\<not> linea_valida (productos tienda) \<lparr>item_id = 2, item_cantidad = 9\<rparr>"
    by (simp add: linea_valida_def tienda_def lapiz_def goma_def)
  have h4: "\<forall>k. \<not> sin_fallos (FindById k)"
    by (simp add: sin_fallos_def)
  have f: "findById (productos tienda) (item_id \<lparr>item_id = 2, item_cantidad = 9\<rparr>) = Some goma"
    by (simp add: tienda_def lapiz_def goma_def)
  from finalizar_first_error [OF h1 h2 h3, of sin_fallos] h4 f
  have "fst (finalizar sin_fallos tienda carrito_excedido) = tienda"
    and "snd (finalizar sin_fallos tienda carrito_excedido) =
       \<lparr>status = 400, cuerpo = StockInsuficientePara (nombre goma) (cantidad goma)\<rparr>"
    by simp_all
  then show ?thesis using h1 h2 h3 by (simp add: goma_def)
qed

section \<open>Successful checkout\<close>

text \<open>
  C6. For every non-empty cart whose lines all name a stored product and ask for at most
  its stock, when no storage call throws, the checkout succeeds, one sale record is
  appended whose items snapshot name and price per line, with subtotal quantity times
  unit price and total the sum of the subtotals, and every product's stock is reduced by
  the quantity the cart requests of it.
\<close>

theorem finalizar_valid_cart:
  assumes "cart \<noteq> []" and "list_all (linea_valida (productos st)) cart" and "\<forall>pt. \<not> env pt"
  shows "\<exists>st' v. finalizar env st cart = (st', \<lparr>status = 200, cuerpo = VentaFinalizada (totalVenta v)\<rparr>) \<and>
     ventas st' = ventas st @ [v] \<and>
     productosVendidos v = map (\<lambda>item. vendido (the (findById (productos st) (item_id item))) item) cart \<and>
     list_all (\<lambda>x. subtotal x = of_int (v_cantidad x) * precioUnitario x) (productosVendidos v) \<and>
     totalVenta v = sum_list (map subtotal (productosVendidos v)) \<and>
     (\<forall>i. findById (productos st') i =
        map_option (\<lambda>p. p\<lparr>cantidad := cantidad p - pedido cart i\<rparr>) (findById (productos st) i)) \<and>
     categorias st' = categorias st"
proof -
  let ?vs = "map (\<lambda>item. vendido (the (findById (productos st) (item_id item))) item) cart"
  let ?tot = "sum_list (map (\<lambda>item. of_int (item_cantidad item) * precio (the (findById (productos st) (item_id item)))) cart)"
  have v: "validar env (productos st) cart 0 [] 0 = Inr (?vs, ?tot)"
    using validar_ok [of env "productos st" cart 0 "[]" 0] assms by simp
  obtain ps' where d: "decrementar env (productos st) cart 0 = Some ps'" and
    f: "\<forall>i. findById ps' i =
        map_option (\<lambda>p. p\<lparr>cantidad := cantidad p - pedido cart i\<rparr>) (findById (productos st) i)"
    using decrementar_ok [of env "productos st" cart 0] assms(3) by blast
  let ?v = "\<lparr>productosVendidos = ?vs, totalVenta = ?tot\<rparr>"
  let ?st' = "st\<lparr>productos := ps', ventas := ventas st @ [?v]\<rparr>"
  have "finalizar env st cart = (?st', \<lparr>status = 200, cuerpo = VentaFinalizada (totalVenta ?v)\<rparr>)"
    using assms(1,3) v d by (simp add: finalizar_def transaccion_def)
  moreover have "list_all (\<lambda>x. subtotal x = of_int (v_cantidad x) * precioUnitario x) ?vs"
    by (simp add: list_all_iff vendido_def)
  moreover have "?tot = sum_list (map subtotal ?vs)"
    by (simp add: vendido_def comp_def)
  ultimately show ?thesis using f
    by (intro exI [of _ ?st'] exI [of _ ?v]) simp
qed

theorem finalizar_valid_cart_witness:
  "carrito_valido \<noteq> [] \<and>
   list_all (linea_valida (productos tienda)) carrito_valido \<and>
   (\<forall>pt. \<not> sin_fallos pt) \<and>
   (\<exists>st' v. finalizar sin_fallos tienda carrito_valido =
        (st', \<lparr>status = 200, cuerpo = VentaFinalizada (totalVenta v)\<rparr>) \<and>
      ventas st' = ventas tienda @ [v] \<and>
      totalVenta v = sum_list (map subtotal (productosVendidos v)) \<and>
      findById (productos st') 1 = Some (lapiz\<lparr>cantidad := 3\<rparr>) \<and>
      findById (productos st') 2 = Some (goma\<lparr>cantidad := 3\<rparr>))"
proof -
  have h1: "carrito_valido \<noteq> []"
    by (simp add: carrito_valido_def)
  have h2: "list_all (linea_valida (productos tienda)) carrito_valido"
    by (simp add: carrito_valido_def linea_valida_def tienda_def lapiz_def goma_def)
  have h3: "\<forall>pt. \<not> sin_fallos pt"
    by (simp add: sin_fallos_def)
  have p: "pedido carrito_valido 1 = 2" "pedido carrito_valido 2 = 1"
    by (simp_all add: pedido_def carrito_valido_def)
  have f: "findById (productos tienda) 1 = Some lapiz" "findById (productos tienda) 2 = Some goma"
    by (simp_all add: tienda_def lapiz_def goma_def)
  have c: "cantidad lapiz - 2 = 3" "cantidad goma - 1 = 3"
    by (simp_all add: lapiz_def goma_def)
  from finalizar_valid_cart [OF h1 h2 h3] obtain st' v where
    r: "finalizar sin_fallos tienda carrito_valido =
          (st', \<lparr>status = 200, cuerpo = VentaFinalizada (totalVenta v)\<rparr>)"
    and l: "ventas st' = ventas tienda @ [v]"
    and t: "totalVenta v = sum_list (map subtotal (productosVendidos v))"
    and s: "\<forall>i. findById (productos st') i =
        map_option (\<lambda>p. p\<lparr>cantidad := cantidad p - pedido carrito_valido i\<rparr>)
          (findById (productos tienda) i)"
    by blast
  have "findById (productos st') 1 = Some (lapiz\<lparr>cantidad := 3\<rparr>)"
    and "findById (productos st') 2 = Some (goma\<lparr>cantidad := 3\<rparr>)"
    using s p f c by simp_all
  with r l t h1 h2 h3 show ?thesis by blast
qed

section \<open>What the caller receives\<close>

text \<open>
  C7, as stated, fails: a successful checkout returns a success flag and a message with
  the total, not the sale record. Two checkouts that commit different sale records (2
  units at 3 each, 3 units at 2 each) return the same response.
\<close>

theorem finalizar_response_not_sale_record:
  "snd (finalizar sin_fallos tienda [\<lparr>item_id = 1, item_cantidad = 2\<rparr>]) =
     snd (finalizar sin_fallos tienda [\<lparr>item_id = 2, item_cantidad = 3\<rparr>]) \<and>
   status (snd (finalizar sin_fallos tienda [\<lparr>item_id = 1, item_cantidad = 2\<rparr>])) = 200 \<and>
   last (ventas (fst (finalizar sin_fallos tienda [\<lparr>item_id = 1, item_cantidad = 2\<rparr>]))) \<noteq>
     last (ventas (fst (finalizar sin_fallos tienda [\<lparr>item_id = 2, item_cantidad = 3\<rparr>])))"
  by (simp add: finalizar_def transaccion_def vendido_def sin_fallos_def tienda_def
      lapiz_def goma_def)

text \<open>
  C7, amended. A successful checkout returns the total of the sale record it appended;
  a successful quick sale returns the quantity sold and the product with its stock after
  the sale, which is the product then stored. Neither returns the sale record.
\<close>

theorem successful_sale_response:
  "(status (snd (finalizar env st cart)) = 200 \<longrightarrow>
      (\<exists>v. ventas (fst (finalizar env st cart)) = ventas st @ [v] \<and>
           cuerpo (snd (finalizar env st cart)) = VentaFinalizada (totalVenta v))) \<and>
   (status (snd (vender env st i q)) = 200 \<longrightarrow>
      (\<exists>n p. q = Some n \<and> findById (productos st) i = Some p \<and>
         cuerpo (snd (vender env st i q)) = VentaRegistrada n (p\<lparr>cantidad := cantidad p - n\<rparr>) \<and>
         findById (productos (fst (vender env st i q))) i = Some (p\<lparr>cantidad := cantidad p - n\<rparr>)))"
proof (intro conjI impI)
  assume ok: "status (snd (finalizar env st cart)) = 200"
  have inl: "status r \<noteq> 200" if "validar env' ps c k vs t = Inl r" for env' ps c k vs t r
    using that by (induction c arbitrary: k vs t) (auto split: if_splits option.splits)
  show "\<exists>v. ventas (fst (finalizar env st cart)) = ventas st @ [v] \<and>
           cuerpo (snd (finalizar env st cart)) = VentaFinalizada (totalVenta v)"
  proof (cases "validar env (productos st) cart 0 [] 0")
    case (Inl r)
    then show ?thesis using ok inl [OF Inl] by (simp add: finalizar_def split: if_splits)
  next
    case (Inr r)
    then show ?thesis using ok
      by (cases r) (auto simp: finalizar_def transaccion_def split: if_splits option.splits)
  qed
next
  assume ok: "status (snd (vender env st i q)) = 200"
  then obtain n p where q: "q = Some n" and p: "findById (productos st) i = Some p"
    by (auto simp: vender_def Let_def split: option.splits if_splits)
  have "findById (findByIdAndUpdate_inc (productos st) i (- n)) i = Some (p\<lparr>cantidad := cantidad p - n\<rparr>)"
    using p by (simp add: findById_inc)
  then show "\<exists>n p. q = Some n \<and> findById (productos st) i = Some p \<and>
         cuerpo (snd (vender env st i q)) = VentaRegistrada n (p\<lparr>cantidad := cantidad p - n\<rparr>) \<and>
         findById (productos (fst (vender env st i q))) i = Some (p\<lparr>cantidad := cantidad p - n\<rparr>)"
    using ok q p
    by (auto simp: vender_def Let_def producto_save_inc split: if_splits)
qed

theorem successful_sale_response_witness:
  "status (snd (finalizar sin_fallos tienda carrito_valido)) = 200 \<and>
   status (snd (vender sin_fallos tienda 1 (Some 2))) = 200 \<and>
   (\<exists>v. ventas (fst (finalizar sin_fallos tienda carrito_valido)) = ventas tienda @ [v] \<and>
        cuerpo (snd (finalizar sin_fallos tienda carrito_valido)) = VentaFinalizada (totalVenta v)) \<and>
   cuerpo (snd (vender sin_fallos tienda 1 (Some 2))) = VentaRegistrada 2 (lapiz\<lparr>cantidad := 3\<rparr>) \<and>
   findById (productos (fst (vender sin_fallos tienda 1 (Some 2)))) 1 = Some (lapiz\<lparr>cantidad := 3\<rparr>)"
proof -
  have h1: "status (snd (finalizar sin_fallos tienda carrito_valido)) = 200"
    by (simp add: finalizar_def transaccion_def vendido_def sin_fallos_def tienda_def
        carrito_valido_def lapiz_def goma_def)
  have h2: "status (snd (vender sin_fallos tienda 1 (Some 2))) = 200"
    by (simp add: vender_def sin_fallos_def tienda_def lapiz_def goma_def Let_def)
  have f: "findById (productos tienda) 1 = Some lapiz" "cantidad lapiz - 2 = 3"
    by (simp_all add: tienda_def lapiz_def goma_def)
  from successful_sale_response [of sin_fallos tienda carrito_valido 1 "Some 2"] h1 h2 f
  have "\<exists>v. ventas (fst (finalizar sin_fallos tienda carrito_valido)) = ventas tienda @ [v] \<and>
        cuerpo (snd (finalizar sin_fallos tienda carrito_valido)) = VentaFinalizada (totalVenta v)"
    and "cuerpo (snd (vender sin_fallos tienda 1 (Some 2))) = VentaRegistrada 2 (lapiz\<lparr>cantidad := 3\<rparr>)"
    and "findById (productos (fst (vender sin_fallos tienda 1 (Some 2)))) 1 = Some (lapiz\<lparr>cantidad := 3\<rparr>)"
    by auto
  with h1 h2 show ?thesis by blast
qed

section \<open>Quick sale against a cart of one line\<close>




section \<open>Stock by category\<close>

lemma calcular_concat:
  "\<not> env Aggregate \<Longrightarrow>
   calcularExistenciasPorCategoria env st =
     concat (map (\<lambda>c. map (\<lambda>k. \<lparr>r_id = c, r_nombre = c_nombre k,
                                 totalExistencias = existencias_de (productos st) c\<rparr>)
                        (filter (\<lambda>k. c_id k = c) (categorias st)))
              (remdups (map categoriaID (productos st))))"
  by (simp add: calcularExistenciasPorCategoria_def unwind_categoriaInfo_def
      lookup_categorias_def group_categoriaID_def project_fila_def map_concat comp_def
      existencias_de_def)

lemma existenciasMap_map_of:
  "foldl (\<lambda>acc curr. acc(r_nombre curr \<mapsto> totalExistencias curr)) m filas =
     m ++ map_of (rev (map (\<lambda>f. (r_nombre f, totalExistencias f)) filas))"
  by (induction filas arbitrary: m) (simp_all add: map_add_upd_left)


lemma nombres_distinct:
  "distinct ds \<Longrightarrow> distinct (map c_nombre cs) \<Longrightarrow>
   distinct (concat (map (\<lambda>c. map c_nombre (filter (\<lambda>k. c_id k = c) cs)) ds))"
proof (induction ds)
  case Nil
  then show ?case by simp
next
  case (Cons c ds)
  have inj: "inj_on c_nombre (set cs)"
    using Cons.prems(2) by (simp add: distinct_map)
  have "c_nombre k \<noteq> c_nombre k'"
    if "k \<in> set cs" "c_id k = c" "k' \<in> set cs" "c_id k' \<in> set ds" for k k'
  proof
    assume "c_nombre k = c_nombre k'"
    then have "k = k'" using inj that(1,3) by (simp add: inj_on_def)
    then show False using that(2,4) Cons.prems(1) by simp
  qed
  then have "set (map c_nombre (filter (\<lambda>k. c_id k = c) cs)) \<inter>
        set (concat (map (\<lambda>c. map c_nombre (filter (\<lambda>k. c_id k = c) cs)) ds)) = {}"
    by auto
  moreover have "distinct (map c_nombre (filter (\<lambda>k. c_id k = c) cs))"
    using Cons.prems(2) by (simp add: distinct_map_filter)
  ultimately show ?case using Cons by simp
qed

lemma find_nombre:
  "distinct (map c_nombre cs) \<Longrightarrow> k \<in> set cs \<Longrightarrow> find (\<lambda>k'. c_nombre k' = c_nombre k) cs = Some k"
  by (induction cs) (auto simp: image_iff)

lemma find_nombre_None:
  "find (\<lambda>k. c_nombre k = n) cs = None \<longleftrightarrow> n \<notin> c_nombre ` set cs"
  by (auto simp: find_None_iff)

text \<open>
  C9. When the aggregation does not throw and category names are unique, the object built
  from the pipeline's result maps the name of every category that at least one product
  references to the sum of the stock of those products, and has no entry for any other
  name: categories without products are omitted.
\<close>

theorem existenciasMap_by_category:
  assumes "\<not> env Aggregate" and "distinct (map c_nombre (categorias st))"
  shows "existenciasMap (calcularExistenciasPorCategoria env st) =
     (\<lambda>n. case find (\<lambda>k. c_nombre k = n) (categorias st) of
             None \<Rightarrow> None
           | Some k \<Rightarrow>
               if c_id k \<in> categoriaID ` set (productos st)
               then Some (existencias_de (productos st) (c_id k))
               else None)"
proof (rule ext)
  fix n
  let ?cs = "categorias st" and ?ps = "productos st"
  let ?ds = "remdups (map categoriaID ?ps)"
  let ?kv = "map (\<lambda>f. (r_nombre f, totalExistencias f)) (calcularExistenciasPorCategoria env st)"
  have kv: "?kv = concat (map (\<lambda>c. map (\<lambda>k. (c_nombre k, existencias_de ?ps c))
                                   (filter (\<lambda>k. c_id k = c) ?cs)) ?ds)"
    using assms(1) by (simp add: calcular_concat map_concat comp_def)
  have keys: "map fst ?kv = concat (map (\<lambda>c. map c_nombre (filter (\<lambda>k. c_id k = c) ?cs)) ?ds)"
    unfolding kv by (simp add: map_concat comp_def)
  have dist: "distinct (map fst (rev ?kv))"
    using nombres_distinct [of ?ds ?cs] assms(2) keys by (simp add: rev_map [symmetric])
  have mem: "(n, v) \<in> set ?kv \<longleftrightarrow>
      (\<exists>k \<in> set ?cs. c_nombre k = n \<and> c_id k \<in> categoriaID ` set ?ps \<and> v = existencias_de ?ps (c_id k))"
    for v
    unfolding kv by (auto simp: image_iff)
  have lhs: "existenciasMap (calcularExistenciasPorCategoria env st) n = map_of (rev ?kv) n"
    by (simp add: existenciasMap_def existenciasMap_map_of)
  show "existenciasMap (calcularExistenciasPorCategoria env st) n =
     (case find (\<lambda>k. c_nombre k = n) ?cs of
             None \<Rightarrow> None
           | Some k \<Rightarrow>
               if c_id k \<in> categoriaID ` set ?ps
               then Some (existencias_de ?ps (c_id k))
               else None)"
  proof (cases "find (\<lambda>k. c_nombre k = n) ?cs")
    case None
    then have "n \<notin> c_nombre ` set ?cs" by (simp add: find_nombre_None)
    then have "\<forall>v. (n, v) \<notin> set ?kv" using mem by blast
    then have "map_of (rev ?kv) n = None"
      by (metis map_of_SomeD not_Some_eq set_rev)
    then show ?thesis using None lhs by simp
  next
    case (Some k)
    then have k: "k \<in> set ?cs" "c_nombre k = n"
      by (auto simp: find_Some_iff in_set_conv_nth)
    have uniq: "k' = k" if "k' \<in> set ?cs" "c_nombre k' = n" for k'
      using find_nombre [OF assms(2) that(1)] that(2) Some by simp
    show ?thesis
    proof (cases "c_id k \<in> categoriaID ` set ?ps")
      case True
      then have "(n, existencias_de ?ps (c_id k)) \<in> set (rev ?kv)"
        using mem k by auto
      then have "map_of (rev ?kv) n = Some (existencias_de ?ps (c_id k))"
        using dist by (simp del: set_rev)
      then show ?thesis using Some True lhs by simp
    next
      case False
      then have "\<forall>v. (n, v) \<notin> set ?kv" using mem uniq by blast
      then have "map_of (rev ?kv) n = None"
        by (metis map_of_SomeD not_Some_eq set_rev)
      then show ?thesis using Some False lhs by simp
    qed
  qed
qed

theorem existenciasMap_by_category_witness:
  "\<not> sin_fallos Aggregate \<and> distinct (map c_nombre (categorias almacen)) \<and>
   existenciasMap (calcularExistenciasPorCategoria sin_fallos almacen) = [''X'' \<mapsto> 8, ''Y'' \<mapsto> 2]"
proof -
  have h1: "\<not> sin_fallos Aggregate"
    by (simp add: sin_fallos_def)
  have h2: "distinct (map c_nombre (categorias almacen))"
    by (simp add: almacen_def)
  have "existenciasMap (calcularExistenciasPorCategoria sin_fallos almacen) n =
      ([''X'' \<mapsto> 8, ''Y'' \<mapsto> 2]) n" for n
    using existenciasMap_by_category [of sin_fallos almacen] h1 h2
    by (simp add: almacen_def existencias_de_def)
  then show ?thesis using h1 h2 by blast
qed

lemma sum_list_solo:
  "distinct ds \<Longrightarrow>
   sum_list (map (\<lambda>c. if c = a then v else 0) ds) = (if a \<in> set ds then v else (0::int))"
  by (induction ds) auto

lemma existencias_de_Cons:
  "existencias_de (p # ps) c = (if c = categoriaID p then cantidad p else 0) + existencias_de ps c"
  by (simp add: existencias_de_def)

lemma suma_por_grupos:
  "distinct ds \<Longrightarrow> categoriaID ` set ps \<subseteq> set ds \<Longrightarrow>
   sum_list (map (\<lambda>c. if P c then existencias_de ps c else 0) ds) =
     sum_list (map cantidad (filter (\<lambda>p. P (categoriaID p)) ps))"
proof (induction ps)
  case Nil
  then show ?case by (simp add: existencias_de_def cong: if_cong)
next
  case (Cons p ps)
  have "(\<lambda>c. if P c then existencias_de (p # ps) c else 0) =
        (\<lambda>c. (if c = categoriaID p then (if P (categoriaID p) then cantidad p else 0) else 0) +
              (if P c then existencias_de ps c else 0))"
    by (auto simp: existencias_de_Cons)
  then have "sum_list (map (\<lambda>c. if P c then existencias_de (p # ps) c else 0) ds) =
        sum_list (map (\<lambda>c. if c = categoriaID p then (if P (categoriaID p) then cantidad p else 0) else 0) ds) +
        sum_list (map (\<lambda>c. if P c then existencias_de ps c else 0) ds)"
    by (simp add: sum_list_addf)
  also have "\<dots> = (if P (categoriaID p) then cantidad p else 0) +
        sum_list (map cantidad (filter (\<lambda>p. P (categoriaID p)) ps))"
    using Cons by (simp add: sum_list_solo)
  finally show ?case by simp
qed

lemma sum_list_concat_int:
  "sum_list (concat xss) = sum_list (map sum_list xss)" for xss :: "int list list"
  by (induction xss) simp_all

lemma filter_c_id:
  "distinct (map c_id cs) \<Longrightarrow>
   length (filter (\<lambda>k. c_id k = c) cs) = (if c \<in> c_id ` set cs then 1 else 0)"
  by (induction cs) (auto simp: image_iff)

lemma suma_filas:
  assumes "\<not> env Aggregate" and "distinct (map c_id (categorias st))"
  shows "sum_list (map totalExistencias (calcularExistenciasPorCategoria env st)) =
     sum_list (map cantidad (filter (\<lambda>p. categoriaID p \<in> c_id ` set (categorias st)) (productos st)))"
proof -
  let ?cs = "categorias st" and ?ps = "productos st"
  let ?ds = "remdups (map categoriaID ?ps)"
  have "sum_list (map totalExistencias (calcularExistenciasPorCategoria env st)) =
        sum_list (map (\<lambda>c. int (length (filter (\<lambda>k. c_id k = c) ?cs)) * existencias_de ?ps c) ?ds)"
    using assms(1)
    by (simp add: calcular_concat map_concat comp_def sum_list_concat_int sum_list_triv)
  also have "\<dots> = sum_list (map (\<lambda>c. if c \<in> c_id ` set ?cs then existencias_de ?ps c else 0) ?ds)"
    by (rule arg_cong [where f = sum_list], rule map_cong) (simp_all add: filter_c_id [OF assms(2)])
  also have "\<dots> = sum_list (map cantidad (filter (\<lambda>p. categoriaID p \<in> c_id ` set ?cs) ?ps))"
    by (rule suma_por_grupos) simp_all
  finally show ?thesis .
qed

lemma sum_list_filter_split:
  "sum_list (map cantidad ps) =
     sum_list (map cantidad (filter P ps)) + sum_list (map cantidad (filter (\<lambda>p. \<not> P p) ps))"
  by (induction ps) auto

text \<open>
  C10. When the aggregation does not throw (and category ids are unique, as object ids
  are), every returned group belongs to a stored category and totals the products that
  reference it, so a product whose category reference resolves to no category is in no
  group; the returned totals add up to the whole stock minus the stock of those products,
  which is strictly less than the whole stock when that stock is positive.
\<close>

theorem dangling_category_dropped:
  assumes "\<not> env Aggregate" and "distinct (map c_id (categorias st))"
  shows "(\<forall>f \<in> set (calcularExistenciasPorCategoria env st).
            r_id f \<in> c_id ` set (categorias st) \<and>
            totalExistencias f = existencias_de (productos st) (r_id f)) \<and>
     sum_list (map totalExistencias (calcularExistenciasPorCategoria env st)) =
       sum_list (map cantidad (productos st)) - existencias_huerfanas st \<and>
     (0 < existencias_huerfanas st \<longrightarrow>
        sum_list (map totalExistencias (calcularExistenciasPorCategoria env st)) <
          sum_list (map cantidad (productos st)))"
proof -
  have 1: "\<forall>f \<in> set (calcularExistenciasPorCategoria env st).
            r_id f \<in> c_id ` set (categorias st) \<and>
            totalExistencias f = existencias_de (productos st) (r_id f)"
    using assms(1) by (auto simp: calcular_concat intro: rev_image_eqI)
  have 2: "sum_list (map totalExistencias (calcularExistenciasPorCategoria env st)) =
       sum_list (map cantidad (productos st)) - existencias_huerfanas st"
    using suma_filas [of env st] assms
      sum_list_filter_split [of "productos st" "\<lambda>p. categoriaID p \<in> c_id ` set (categorias st)"]
    by (simp add: existencias_huerfanas_def)
  show ?thesis using 1 2 by simp
qed

theorem dangling_category_dropped_witness:
  "\<not> sin_fallos Aggregate \<and> distinct (map c_id (categorias tienda_huerfana)) \<and>
   tinta \<in> set (productos tienda_huerfana) \<and>
   categoriaID tinta \<notin> c_id ` set (categorias tienda_huerfana) \<and>
   0 < existencias_huerfanas tienda_huerfana \<and>
   categoriaID tinta \<notin> r_id ` set (calcularExistenciasPorCategoria sin_fallos tienda_huerfana) \<and>
   sum_list (map totalExistencias (calcularExistenciasPorCategoria sin_fallos tienda_huerfana)) <
     sum_list (map cantidad (productos tienda_huerfana))"
proof -
  have h1: "\<not> sin_fallos Aggregate"
    by (simp add: sin_fallos_def)
  have h2: "distinct (map c_id (categorias tienda_huerfana))"
    by (simp add: tienda_huerfana_def)
  have h3: "tinta \<in> set (productos tienda_huerfana)"
    by (simp add: tienda_huerfana_def)
  have h4: "categoriaID tinta \<notin> c_id ` set (categorias tienda_huerfana)"
    by (simp add: tienda_huerfana_def tinta_def papeleria_def)
  have h5: "0 < existencias_huerfanas tienda_huerfana"
    by (simp add: existencias_huerfanas_def tienda_huerfana_def tinta_def lapiz_def goma_def
        papeleria_def)
  have "\<forall>f \<in> set (calcularExistenciasPorCategoria sin_fallos tienda_huerfana). r_id f \<noteq> categoriaID tinta"
    using dangling_category_dropped [of sin_fallos tienda_huerfana] h1 h2 h4 by metis
  then have a: "categoriaID tinta \<notin> r_id ` set (calcularExistenciasPorCategoria sin_fallos tienda_huerfana)"
    by (metis imageE)
  have b: "sum_list (map totalExistencias (calcularExistenciasPorCategoria sin_fallos tienda_huerfana)) <
     sum_list (map cantidad (productos tienda_huerfana))"
    using dangling_category_dropped [of sin_fallos tienda_huerfana] h1 h2 h5 by blast
  from a b h1 h2 h3 h4 h5 show ?thesis by blast
qed

end

